theory Spec2Isabelle
  imports Main "HOL-Library.AList" "HOL-Library.Sublist"
begin

section \<open>The link-library web service (app.py)\<close>

text \<open>
  The service keeps three pieces of process memory (a token map, a log buffer and the
  library sequence) and two files (the library file and the admin file). Every handler
  of app.py is modelled as a function from the request and the state to a result and the
  new state; the readings of the clock and of the random source a handler makes are
  supplied to it in an environment record.
\<close>

subsection \<open>JSON values as Python sees them\<close>

text \<open>
  What \<open>json.load\<close> and \<open>request.json\<close> produce: \<open>None\<close>, booleans, integers,
  strings, lists and dictionaries with string keys. A dictionary is an association list
  in insertion order whose keys are distinct. Numbers with a fraction or an exponent are
  Python floats and are left out of the model.
\<close>

datatype json =
    JNull
  | JBool bool
  | JInt int
  | JStr string
  | JArr "json list"
  | JObj "(string \<times> json) list"

datatype py_error =
    AttributeError | KeyError | TypeError
  | UnicodeDecodeError | ValueError | RecursionError | OSError

text \<open>Python's truth value of an object, as \<open>if name and url\<close> and \<open>not x\<close> take it.\<close>

fun py_truthy :: "json \<Rightarrow> bool" where
  "py_truthy JNull = False"
| "py_truthy (JBool b) = b"
| "py_truthy (JInt n) = (n \<noteq> 0)"
| "py_truthy (JStr s) = (s \<noteq> [])"
| "py_truthy (JArr xs) = (xs \<noteq> [])"
| "py_truthy (JObj kvs) = (kvs \<noteq> [])"

text \<open>
  Python's \<open>==\<close> on these values: a boolean equals the integer 0 or 1, lists are
  compared element by element, dictionaries by size and by the value under each key.
\<close>

fun py_eq :: "json \<Rightarrow> json \<Rightarrow> bool"
  and py_eq_seq :: "json list \<Rightarrow> json list \<Rightarrow> bool"
  and py_eq_items :: "(string \<times> json) list \<Rightarrow> (string \<times> json) list \<Rightarrow> bool"
where
  "py_eq JNull JNull = True"
| "py_eq (JBool a) (JBool b) = (a = b)"
| "py_eq (JBool a) (JInt n) = ((if a then 1 else 0) = n)"
| "py_eq (JInt n) (JBool a) = (n = (if a then 1 else 0))"
| "py_eq (JInt m) (JInt n) = (m = n)"
| "py_eq (JStr s) (JStr t) = (s = t)"
| "py_eq (JArr xs) (JArr ys) = py_eq_seq xs ys"
| "py_eq (JObj a) (JObj b) = (length a = length b \<and> py_eq_items a b)"
| "py_eq _ _ = False"
| "py_eq_seq [] [] = True"
| "py_eq_seq (x # xs) (y # ys) = (py_eq x y \<and> py_eq_seq xs ys)"
| "py_eq_seq _ _ = False"
| "py_eq_items [] b = True"
| "py_eq_items ((k, v) # a) b =
     (case map_of b k of None \<Rightarrow> False | Some w \<Rightarrow> py_eq v w \<and> py_eq_items a b)"

text \<open>\<open>d.get(key)\<close> is \<open>None\<close> for a missing key; \<open>d.get(key, default)\<close> the default.\<close>

definition py_get_default :: "(string \<times> json) list \<Rightarrow> string \<Rightarrow> json \<Rightarrow> json" where
  "py_get_default d key dflt = (case map_of d key of None \<Rightarrow> dflt | Some v \<Rightarrow> v)"

definition py_get :: "(string \<times> json) list \<Rightarrow> string \<Rightarrow> json" where
  "py_get d key = py_get_default d key JNull"

text \<open>\<open>d[key]\<close> raises KeyError for a missing key.\<close>

definition py_getitem :: "(string \<times> json) list \<Rightarrow> string \<Rightarrow> py_error + json" where
  "py_getitem d key = (case map_of d key of None \<Rightarrow> Inl KeyError | Some v \<Rightarrow> Inr v)"

subsection \<open>State, requests and responses\<close>

text \<open>
  A file is described by what \<open>os.path.exists\<close>, \<open>open\<close> and \<open>json.load\<close> do on
  it. It is absent; or \<open>json.load\<close> rejects its text with JSONDecodeError
  (\<open>Corrupt\<close>); or \<open>json.load\<close> parses it to a value (\<open>Content\<close>); or opening or
  loading it raises an exception that is not a JSONDecodeError (\<open>Raising\<close>):
  UnicodeDecodeError for bytes that do not decode, ValueError for an integer literal over
  the digit limit, RecursionError for nesting that is too deep, OSError for a file that
  cannot be opened or read. \<open>json.dump\<close> writes text that parses back to the value
  dumped.
\<close>

datatype file_content = Absent | Corrupt | Content json | Raising py_error

type_synonym datetime = int  \<comment> \<open>a reading of \<open>datetime.now()\<close>, in microseconds\<close>

record state =
  active_tokens :: "string \<rightharpoonup> datetime"
  server_logs :: "string list"
  library_links :: "json list"
  library_file :: file_content
  admin_file :: file_content
  console :: "string list"

text \<open>
  The library sequence in memory is a list, which is what \<open>load_library\<close> yields for an
  absent file, a corrupt file and a file holding a JSON array; its elements are any
  JSON values.
\<close>

record request =
  headers :: "string \<rightharpoonup> string"
  json_body :: json

record response =
  status_code :: nat
  payload :: json

text \<open>
  What a handler reads from outside the state: \<open>now\<close> is \<open>datetime.now()\<close>, \<open>stamp\<close> is
  \<open>datetime.now().strftime('%Y-%m-%d %H:%M:%S')\<close>, \<open>token_draw\<close> is
  \<open>secrets.token_urlsafe(32)\<close>, and \<open>str_of\<close> is Python's \<open>str\<close> on a value that is
  not a string, as an f-string applies it.
\<close>

record env =
  now :: datetime
  stamp :: string
  token_draw :: string
  str_of :: "json \<Rightarrow> string"

definition fmt :: "env \<Rightarrow> json \<Rightarrow> string" where
  "fmt e v = (case v of JStr s \<Rightarrow> s | _ \<Rightarrow> str_of e v)"

definition jsonify :: "nat \<Rightarrow> (string \<times> json) list \<Rightarrow> response" where
  "jsonify code d = \<lparr>status_code = code, payload = JObj d\<rparr>"

subsection \<open>Token management\<close>

definition TOKEN_EXPIRY_HOURS :: int where
  "TOKEN_EXPIRY_HOURS = 24"

definition timedelta_hours :: "int \<Rightarrow> int" where
  "timedelta_hours h = h * 3600 * 1000000"

definition is_token_valid :: "datetime \<Rightarrow> string \<Rightarrow> (string \<rightharpoonup> datetime) \<Rightarrow> bool \<times> (string \<rightharpoonup> datetime)" where
  "is_token_valid t token toks =
     (case toks token of
        Some expiry \<Rightarrow> if t < expiry then (True, toks) else (False, toks(token := None))
      | None \<Rightarrow> (False, toks))"

definition create_session_token :: "string \<Rightarrow> datetime \<Rightarrow> (string \<rightharpoonup> datetime) \<Rightarrow> string \<times> (string \<rightharpoonup> datetime)" where
  "create_session_token token t toks =
     (token, toks(token \<mapsto> t + timedelta_hours TOKEN_EXPIRY_HOURS))"

definition revoke_token :: "string \<Rightarrow> (string \<rightharpoonup> datetime) \<Rightarrow> (string \<rightharpoonup> datetime)" where
  "revoke_token token toks =
     (case toks token of Some _ \<Rightarrow> toks(token := None) | None \<Rightarrow> toks)"

subsection \<open>The log buffer\<close>

definition MAX_LOGS :: nat where
  "MAX_LOGS = 1000"

definition log_entry :: "string \<Rightarrow> string \<Rightarrow> string" where
  "log_entry ts message = ''['' @ ts @ ''] '' @ message"

text \<open>
  \<open>server_logs.pop(0)\<close> runs only when the list is longer than \<open>MAX_LOGS\<close>, so
  it never sees an empty list; the entry is also printed.
\<close>

definition add_log :: "env \<Rightarrow> string \<Rightarrow> state \<Rightarrow> state" where
  "add_log e message s =
     (let entry = log_entry (stamp e) message;
          logs = server_logs s @ [entry];
          logs1 = (if length logs > MAX_LOGS then drop 1 logs else logs)
      in s\<lparr>server_logs := logs1, console := console s @ [entry]\<rparr>)"

text \<open>A run of \<open>add_log\<close> calls, each at its own reading of the clock.\<close>

fun add_logs :: "(env \<times> string) list \<Rightarrow> state \<Rightarrow> state" where
  "add_logs [] s = s"
| "add_logs ((e, message) # rest) s = add_logs rest (add_log e message s)"

subsection \<open>Loading and saving\<close>


definition save_library :: "json list \<Rightarrow> state \<Rightarrow> state" where
  "save_library links s = s\<lparr>library_file := Content (JArr links)\<rparr>"

definition load_admin :: "state \<Rightarrow> (py_error + json) \<times> state" where
  "load_admin s =
     (case admin_file s of
        Content v \<Rightarrow> (Inr v, s)
      | Corrupt \<Rightarrow> (Inr JNull, s\<lparr>console := console s @ [''admin.json is corrupted.'']\<rparr>)
      | Raising err \<Rightarrow> (Inl err, s)
      | Absent \<Rightarrow> (Inr JNull, s\<lparr>console := console s @ [''admin.json missing!'']\<rparr>))"


subsection \<open>Admin login and token verification\<close>

text \<open>
  Each handler gets the parsed body \<open>request.json\<close> in the request. A body that is not
  a dictionary has no \<open>get\<close>, and neither has an admin record that is not one.
  An exception, also one of \<open>load_admin\<close>, leaves the handler with the state as it
  is at that point.
\<close>

definition admin_login :: "env \<Rightarrow> request \<Rightarrow> state \<Rightarrow> (py_error + response) \<times> state" where
  "admin_login e req s =
     (case json_body req of
        JObj data \<Rightarrow>
          (let username = py_get data ''username'';
               password = py_get data ''password''
           in case load_admin s of
                (Inl err, s1) \<Rightarrow> (Inl err, s1)
              | (Inr admin_data, s1) \<Rightarrow>
                  (let failed =
                         (Inr (jsonify 401 [(''status'', JStr ''error''),
                            (''message'', JStr ''Invalid username or password'')]),
                          add_log e ''Admin login failed: Invalid credentials'' s1)
                   in if py_truthy admin_data then
                        (case admin_data of
                           JObj a \<Rightarrow>
                             if py_eq username (py_get a ''username'')
                                \<and> py_eq password (py_get a ''password'')
                             then
                               (let (token, toks) =
                                      create_session_token (token_draw e) (now e)
                                        (active_tokens s1);
                                    s2 = s1\<lparr>active_tokens := toks\<rparr>;
                                    s3 = add_log e
                                      (''Admin login successful - Token: '' @ take 10 token
                                         @ ''...'') s2
                                in (Inr (jsonify 200 [(''status'', JStr ''success''),
                                      (''token'', JStr token)]), s3))
                             else failed
                         | _ \<Rightarrow> (Inl AttributeError, s1))
                      else failed))
      | _ \<Rightarrow> (Inl AttributeError, s))"

text \<open>
  \<open>auth_header.split('Bearer ')[1]\<close> on a header that starts with the separator: the
  text after it, up to the next occurrence of the separator.
\<close>

fun before_sep :: "string \<Rightarrow> string \<Rightarrow> string" where
  "before_sep sep [] = []"
| "before_sep sep (c # cs) = (if prefix sep (c # cs) then [] else c # before_sep sep cs)"

definition verify_token :: "env \<Rightarrow> request \<Rightarrow> state \<Rightarrow> (py_error + response) \<times> state" where
  "verify_token e req s =
     (case headers req ''Authorization'' of
        None \<Rightarrow>
          (Inr (jsonify 401 [(''status'', JStr ''error''),
             (''message'', JStr ''No token provided'')]), s)
      | Some auth_header \<Rightarrow>
          if auth_header = [] \<or> \<not> prefix ''Bearer '' auth_header then
            (Inr (jsonify 401 [(''status'', JStr ''error''),
               (''message'', JStr ''No token provided'')]), s)
          else
            (let token = before_sep ''Bearer '' (drop 7 auth_header);
                 (ok, toks) = is_token_valid (now e) token (active_tokens s);
                 s1 = s\<lparr>active_tokens := toks\<rparr>
             in if ok then (Inr (jsonify 200 [(''status'', JStr ''success'')]), s1)
                else (Inr (jsonify 401 [(''status'', JStr ''error''),
                        (''message'', JStr ''Invalid or expired token'')]), s1)))"

subsection \<open>Library API\<close>

definition get_library :: "request \<Rightarrow> state \<Rightarrow> (py_error + response) \<times> state" where
  "get_library req s = (Inr (jsonify 200 [(''links'', JArr (library_links s))]), s)"

definition add_library_link :: "env \<Rightarrow> request \<Rightarrow> state \<Rightarrow> (py_error + response) \<times> state" where
  "add_library_link e req s =
     (case json_body req of
        JObj data \<Rightarrow>
          (let name = py_get data ''name'';
               url = py_get data ''url''
           in if py_truthy name \<and> py_truthy url then
                (let links = library_links s @
                       [JObj [(''name'', name), (''url'', url), (''pinned'', JBool False)]];
                     s1 = save_library links (s\<lparr>library_links := links\<rparr>);
                     s2 = add_log e (''Added to library: '' @ fmt e name @ '' - '' @ fmt e url) s1
                 in (Inr (jsonify 200 [(''status'', JStr ''success''), (''links'', JArr links)]),
                     s2))
              else
                (Inr (jsonify 400 [(''status'', JStr ''error''),
                   (''message'', JStr ''Name and URL required'')]), s))
      | _ \<Rightarrow> (Inl AttributeError, s))"

text \<open>
  The route converter \<open>int:index\<close> hands the handler a Python integer. \<open>pop(index)\<close>
  runs in bounds only. \<open>removed['name']\<close> is read after the list is saved: it raises
  KeyError on a dictionary without the key and TypeError on anything but a dictionary.
\<close>

definition delete_library_link :: "env \<Rightarrow> int \<Rightarrow> request \<Rightarrow> state \<Rightarrow> (py_error + response) \<times> state" where
  "delete_library_link e index req s =
     (if 0 \<le> index \<and> index < int (length (library_links s)) then
        (let removed = library_links s ! nat index;
             links = take (nat index) (library_links s) @ drop (Suc (nat index)) (library_links s);
             s1 = save_library links (s\<lparr>library_links := links\<rparr>)
         in case removed of
              JObj d \<Rightarrow>
                (case py_getitem d ''name'' of
                   Inl err \<Rightarrow> (Inl err, s1)
                 | Inr name \<Rightarrow>
                     (Inr (jsonify 200 [(''status'', JStr ''success''), (''links'', JArr links)]),
                      add_log e (''Removed from library: '' @ fmt e name) s1))
            | _ \<Rightarrow> (Inl TypeError, s1))
      else
        (Inr (jsonify 400 [(''status'', JStr ''error''), (''message'', JStr ''Invalid index'')]),
         s))"

subsection \<open>Pin and unpin\<close>

text \<open>
  On an element that is not a dictionary, the membership test or the item assignment
  raises TypeError before anything is changed. On a dictionary the flag is set to
  \<open>False\<close> when missing, then replaced by the negation of its truth value; the list is
  saved, and only then is \<open>['name']\<close> read for the log line.
\<close>

definition toggle_pin :: "env \<Rightarrow> int \<Rightarrow> request \<Rightarrow> state \<Rightarrow> (py_error + response) \<times> state" where
  "toggle_pin e index req s =
     (if 0 \<le> index \<and> index < int (length (library_links s)) then
        (case library_links s ! nat index of
           JObj d \<Rightarrow>
             (let d1 = (if map_of d ''pinned'' = None
                        then AList.update ''pinned'' (JBool False) d else d);
                  d2 = AList.update ''pinned''
                         (JBool (\<not> py_truthy (py_get_default d1 ''pinned'' (JBool False)))) d1;
                  links = (library_links s)[nat index := JObj d2];
                  s1 = save_library links (s\<lparr>library_links := links\<rparr>);
                  status = (if py_truthy (py_get_default d2 ''pinned'' (JBool False))
                            then ''pinned'' else ''unpinned'')
              in case py_getitem d2 ''name'' of
                   Inl err \<Rightarrow> (Inl err, s1)
                 | Inr name \<Rightarrow>
                     (Inr (jsonify 200 [(''status'', JStr ''success''), (''links'', JArr links)]),
                      add_log e (''Link '' @ status @ '': '' @ fmt e name) s1))
         | _ \<Rightarrow> (Inl TypeError, s))
      else
        (Inr (jsonify 400 [(''status'', JStr ''error''), (''message'', JStr ''Invalid index'')]),
         s))"

subsection \<open>Pinned links\<close>

text \<open>
  The comprehension \<open>[link for link in library_links if link.get('pinned', False)]\<close>:
  \<open>get\<close> exists on dictionaries only, and the condition is the truth value of the flag.
\<close>

fun pinned_links :: "json list \<Rightarrow> py_error + json list" where
  "pinned_links [] = Inr []"
| "pinned_links (link # rest) =
     (case link of
        JObj d \<Rightarrow>
          (case pinned_links rest of
             Inl err \<Rightarrow> Inl err
           | Inr ps \<Rightarrow>
               Inr (if py_truthy (py_get_default d ''pinned'' (JBool False))
                    then link # ps else ps))
      | _ \<Rightarrow> Inl AttributeError)"

definition get_pinned :: "request \<Rightarrow> state \<Rightarrow> (py_error + response) \<times> state" where
  "get_pinned req s =
     (case pinned_links (library_links s) of
        Inl err \<Rightarrow> (Inl err, s)
      | Inr pinned \<Rightarrow> (Inr (jsonify 200 [(''links'', JArr pinned)]), s))"

subsection \<open>Sample inputs\<close>

text \<open>A freshly started server with no files, and one reading of the environment.\<close>

definition s0 :: state where
  "s0 = \<lparr>active_tokens = Map.empty, server_logs = [], library_links = [],
          library_file = Absent, admin_file = Absent, console = []\<rparr>"

definition e0 :: env where
  "e0 = \<lparr>now = 0, stamp = ''2024-01-01 00:00:00'', token_draw = ''tok'', str_of = (\<lambda>v. ''?'')\<rparr>"

text \<open>The two answers of the login handler, and a stored record and a request for it.\<close>

definition login_ok :: "env \<Rightarrow> response" where
  "login_ok e = jsonify 200 [(''status'', JStr ''success''), (''token'', JStr (token_draw e))]"

definition login_refused :: response where
  "login_refused = jsonify 401 [(''status'', JStr ''error''),
     (''message'', JStr ''Invalid username or password'')]"

definition admin_secret :: json where
  "admin_secret = JObj [(''username'', JStr ''admin''), (''password'', JStr ''secret'')]"

definition login_request :: "string \<Rightarrow> string \<Rightarrow> request" where
  "login_request u p =
     \<lparr>headers = Map.empty, json_body = JObj [(''username'', JStr u), (''password'', JStr p)]\<rparr>"

text \<open>The record the add handler builds, its refusal, and two requests to it.\<close>

definition link_record :: "json \<Rightarrow> json \<Rightarrow> json" where
  "link_record name url = JObj [(''name'', name), (''url'', url), (''pinned'', JBool False)]"

definition name_url_required :: response where
  "name_url_required = jsonify 400 [(''status'', JStr ''error''),
     (''message'', JStr ''Name and URL required'')]"

definition wiki_request :: request where
  "wiki_request = \<lparr>headers = Map.empty,
     json_body = JObj [(''name'', JStr ''Wiki''), (''url'', JStr ''http://wiki'')]\<rparr>"


text \<open>The refusal of the delete and pin handlers for an index out of range.\<close>

definition invalid_index :: response where
  "invalid_index = jsonify 400 [(''status'', JStr ''error''), (''message'', JStr ''Invalid index'')]"

text \<open>
  The two tests the comprehension of \<open>get_pinned\<close> makes on an element: it is a
  dictionary, and the truth value of \<open>link.get('pinned', False)\<close>.
\<close>

fun is_dict :: "json \<Rightarrow> bool" where
  "is_dict (JObj d) = True"
| "is_dict _ = False"

fun flag_truthy :: "json \<Rightarrow> bool" where
  "flag_truthy (JObj d) = py_truthy (py_get_default d ''pinned'' (JBool False))"
| "flag_truthy _ = False"


text \<open>
  The specification's reading of the pinned list, in its own words: the subsequence of
  records where \<open>pinned == true\<close>. Its link records carry a boolean flag; the flag
  may also be missing.
\<close>

fun pinned_is_true :: "json \<Rightarrow> bool" where
  "pinned_is_true (JObj d) = (map_of d ''pinned'' = Some (JBool True))"
| "pinned_is_true _ = False"

definition spec_listPinned :: "json list \<Rightarrow> json list" where
  "spec_listPinned xs = filter pinned_is_true xs"

fun flag_boolean_or_missing :: "json \<Rightarrow> bool" where
  "flag_boolean_or_missing (JObj d) =
     (case map_of d ''pinned'' of
        None \<Rightarrow> True
      | Some v \<Rightarrow> (case v of JBool b \<Rightarrow> True | _ \<Rightarrow> False))"
| "flag_boolean_or_missing _ = False"

text \<open>
  Sample libraries: one with a pinned record and a record without the flag, one with
  an element that is not a dictionary, and one reached through the handlers by adding
  the same link twice and pinning both.
\<close>

definition wiki_pinned :: json where
  "wiki_pinned =
     JObj [(''name'', JStr ''Wiki''), (''url'', JStr ''http://wiki''), (''pinned'', JBool True)]"

definition two_links :: state where
  "two_links = s0\<lparr>library_links :=
     [wiki_pinned,
      JObj [(''name'', JStr ''Docs''), (''url'', JStr ''http://docs'')]]\<rparr>"


definition no_request :: request where
  "no_request = \<lparr>headers = Map.empty, json_body = JNull\<rparr>"


section \<open>Session tokens\<close>

text \<open>
  Claim C3. \<open>is_token_valid\<close> answers true exactly when the token is in the map with an
  expiry strictly after the clock reading, and then leaves the map as it is. A token that
  is present but expired is deleted from the map and the answer is false; an absent token
  gives false and no change. A token made by \<open>create_session_token\<close> at \<open>t0\<close> is the
  drawn string, stored with expiry \<open>t0\<close> plus 24 hours; it is valid at \<open>t0\<close> and at every
  reading before the expiry, and from the expiry on it is invalid and gone from the map
  after one check.
\<close>

theorem is_token_valid_spec:
  "(fst (is_token_valid t token toks) \<longleftrightarrow> (\<exists>expiry. toks token = Some expiry \<and> t < expiry))
   \<and> (fst (is_token_valid t token toks) \<longrightarrow> snd (is_token_valid t token toks) = toks)
   \<and> (toks token = Some expiry \<and> \<not> t < expiry \<longrightarrow>
        is_token_valid t token toks = (False, toks(token := None))
        \<and> snd (is_token_valid t token toks) token = None)
   \<and> (toks token = None \<longrightarrow> is_token_valid t token toks = (False, toks))
   \<and> fst (create_session_token draw t0 toks) = draw
   \<and> snd (create_session_token draw t0 toks) draw = Some (t0 + 24 * 3600 * 1000000)
   \<and> is_token_valid t0 draw (snd (create_session_token draw t0 toks))
        = (True, snd (create_session_token draw t0 toks))
   \<and> (t0 \<le> t1 \<and> t1 < t0 + 24 * 3600 * 1000000 \<longrightarrow>
        is_token_valid t1 draw (snd (create_session_token draw t0 toks))
          = (True, snd (create_session_token draw t0 toks)))
   \<and> (t0 + 24 * 3600 * 1000000 \<le> t1 \<longrightarrow>
        fst (is_token_valid t1 draw (snd (create_session_token draw t0 toks))) = False
        \<and> snd (is_token_valid t1 draw (snd (create_session_token draw t0 toks))) draw = None)"
  by (auto simp: is_token_valid_def create_session_token_def TOKEN_EXPIRY_HOURS_def
        timedelta_hours_def split: option.splits)

theorem is_token_valid_spec_witness:
  "[''tok'' \<mapsto> (100::int)] ''tok'' = Some 100 \<and> \<not> (100::int) < 100
   \<and> is_token_valid 100 ''tok'' [''tok'' \<mapsto> 100] = (False, [''tok'' \<mapsto> 100](''tok'' := None))
   \<and> snd (is_token_valid 100 ''tok'' [''tok'' \<mapsto> 100]) ''tok'' = None
   \<and> fst (is_token_valid 99 ''tok'' [''tok'' \<mapsto> 100])
   \<and> snd (is_token_valid 99 ''tok'' [''tok'' \<mapsto> 100]) = [''tok'' \<mapsto> 100]
   \<and> (Map.empty :: string \<rightharpoonup> int) ''tok'' = None
   \<and> is_token_valid 5 ''tok'' Map.empty = (False, Map.empty)
   \<and> (0::int) \<le> 86399999999 \<and> (86399999999::int) < 0 + 24 * 3600 * 1000000
   \<and> is_token_valid 86399999999 ''abc'' (snd (create_session_token ''abc'' 0 [''tok'' \<mapsto> 100]))
        = (True, snd (create_session_token ''abc'' 0 [''tok'' \<mapsto> 100]))
   \<and> (0::int) + 24 * 3600 * 1000000 \<le> 86400000000
   \<and> fst (is_token_valid 86400000000 ''abc'' (snd (create_session_token ''abc'' 0 [''tok'' \<mapsto> 100]))) = False
   \<and> snd (is_token_valid 86400000000 ''abc'' (snd (create_session_token ''abc'' 0 [''tok'' \<mapsto> 100]))) ''abc'' = None"
  using is_token_valid_spec [of 100 "''tok''" "[''tok'' \<mapsto> 100]" 100 "''abc''" 0 86399999999]
    is_token_valid_spec [of 99 "''tok''" "[''tok'' \<mapsto> 100]" 100 "''abc''" 0 86400000000]
    is_token_valid_spec [of 5 "''tok''" Map.empty 100 "''abc''" 0 86400000000]
  by simp

section \<open>The log buffer\<close>

lemma add_log_logs:
  "length (server_logs s) \<le> MAX_LOGS \<Longrightarrow>
   server_logs (add_log e m s) =
     drop (Suc (length (server_logs s)) - MAX_LOGS) (server_logs s @ [log_entry (stamp e) m])"
  by (cases "length (server_logs s) = MAX_LOGS") (auto simp: add_log_def Let_def)

lemma add_log_bound:
  "length (server_logs s) \<le> MAX_LOGS \<Longrightarrow> length (server_logs (add_log e m s)) \<le> MAX_LOGS"
  by (auto simp: add_log_def Let_def)

lemma add_logs_logs:
  "length (server_logs s) \<le> MAX_LOGS \<Longrightarrow>
   server_logs (add_logs ms s) =
     drop (length (server_logs s) + length ms - MAX_LOGS)
       (server_logs s @ map (\<lambda>(e, m). log_entry (stamp e) m) ms)"
proof (induction ms arbitrary: s)
  case Nil
  then show ?case by simp
next
  case (Cons p ms)
  obtain e m where p: "p = (e, m)" by (cases p)
  let ?s1 = "add_log e m s"
  let ?x = "log_entry (stamp e) m"
  let ?rest = "map (\<lambda>(e, m). log_entry (stamp e) m) ms"
  have b1: "length (server_logs ?s1) \<le> MAX_LOGS"
    using Cons.prems by (rule add_log_bound)
  have l1: "server_logs ?s1 = drop (Suc (length (server_logs s)) - MAX_LOGS) (server_logs s @ [?x])"
    using Cons.prems by (rule add_log_logs)
  have "server_logs (add_logs (p # ms) s) = server_logs (add_logs ms ?s1)"
    by (simp add: p)
  also have "\<dots> = drop (length (server_logs ?s1) + length ms - MAX_LOGS) (server_logs ?s1 @ ?rest)"
    using b1 by (rule Cons.IH)
  also have "\<dots> = drop (length (server_logs s) + length (p # ms) - MAX_LOGS)
       (server_logs s @ map (\<lambda>(e, m). log_entry (stamp e) m) (p # ms))"
  proof (cases "length (server_logs s) < MAX_LOGS")
    case True
    then show ?thesis by (simp add: l1 p)
  next
    case False
    with Cons.prems have eq: "length (server_logs s) = MAX_LOGS" by simp
    have pos: "0 < MAX_LOGS" by (simp add: MAX_LOGS_def)
    then have ne: "server_logs s \<noteq> []" using eq by auto
    show ?thesis using eq pos ne
      by (simp add: l1 p drop_Suc tl_append2 drop_tl flip: tl_drop)
  qed
  finally show ?case .
qed

text \<open>
  Claim C7. The bound is 1000. An \<open>add_log\<close> on a buffer of at most 1000 entries leaves
  at most 1000. Starting from the empty buffer, a run of \<open>add_log\<close> calls leaves the
  last 1000 entries of the run in insertion order; after 1001 calls there are exactly
  1000 entries, all but the first one appended, in the order they were appended.
\<close>

theorem log_buffer_bounded:
  "MAX_LOGS = 1000
   \<and> (length (server_logs s) \<le> 1000 \<longrightarrow> length (server_logs (add_log e m s)) \<le> 1000)
   \<and> (server_logs s = [] \<longrightarrow>
        length (server_logs (add_logs ms s)) = min (length ms) 1000
        \<and> server_logs (add_logs ms s) =
            drop (length ms - 1000) (map (\<lambda>(e, m). log_entry (stamp e) m) ms))
   \<and> (server_logs s = [] \<and> length ms = 1001 \<longrightarrow>
        length (server_logs (add_logs ms s)) = 1000
        \<and> server_logs (add_logs ms s) = tl (map (\<lambda>(e, m). log_entry (stamp e) m) ms))"
proof -
  have m: "MAX_LOGS = 1000" by (simp add: MAX_LOGS_def)
  have step: "length (server_logs s) \<le> 1000 \<longrightarrow> length (server_logs (add_log e m s)) \<le> 1000"
    using add_log_bound [of s e m] by (simp add: m)
  have run: "server_logs (add_logs ms s) =
      drop (length ms - 1000) (map (\<lambda>(e, m). log_entry (stamp e) m) ms)"
    if "server_logs s = []" for ms
    using that add_logs_logs [of s ms] by (simp add: m)
  have len: "length (server_logs (add_logs ms s)) = min (length ms) 1000"
    if "server_logs s = []" for ms
    using run [OF that, of ms] by simp
  have last: "server_logs (add_logs ms s) = tl (map (\<lambda>(e, m). log_entry (stamp e) m) ms)"
    if "server_logs s = []" "length ms = 1001"
    using run [OF that(1), of ms] that(2) by (simp add: drop_Suc)
  show ?thesis using m step run len last by simp
qed

theorem log_buffer_bounded_witness:
  "length (server_logs s0) \<le> 1000 \<and> length (server_logs (add_log e0 ''a'' s0)) \<le> 1000
   \<and> server_logs s0 = [] \<and> length (replicate 1001 (e0, ''a'')) = 1001
   \<and> length (server_logs (add_logs (replicate 1001 (e0, ''a'')) s0)) = 1000
   \<and> server_logs (add_logs (replicate 1001 (e0, ''a'')) s0) =
        tl (map (\<lambda>(e, m). log_entry (stamp e) m) (replicate 1001 (e0, ''a'')))
   \<and> server_logs (add_logs [(e0, ''a''), (e0, ''b'')] s0) =
        [''[2024-01-01 00:00:00] a'', ''[2024-01-01 00:00:00] b'']"
  using log_buffer_bounded [of s0 e0 "''a''" "replicate 1001 (e0, ''a'')"]
    log_buffer_bounded [of s0 e0 "''a''" "[(e0, ''a''), (e0, ''b'')]"]
  by (simp add: s0_def e0_def log_entry_def)

section \<open>Loading the library\<close>




section \<open>Login\<close>

lemma admin_login_dict:
  "json_body req = JObj data \<Longrightarrow> admin_file s = Content (JObj a) \<Longrightarrow> a \<noteq> [] \<Longrightarrow>
   admin_login e req s =
     (if py_eq (py_get data ''username'') (py_get a ''username'')
         \<and> py_eq (py_get data ''password'') (py_get a ''password'')
      then (Inr (login_ok e),
            add_log e (''Admin login successful - Token: '' @ take 10 (token_draw e) @ ''...'')
              (s\<lparr>active_tokens := (active_tokens s)(token_draw e \<mapsto> now e + 86400000000)\<rparr>))
      else (Inr login_refused, add_log e ''Admin login failed: Invalid credentials'' s))"
  by (simp add: admin_login_def load_admin_def create_session_token_def login_ok_def
      login_refused_def TOKEN_EXPIRY_HOURS_def timedelta_hours_def Let_def)

lemma admin_login_no_record:
  "json_body req = JObj data \<Longrightarrow> admin_file s = Absent \<or> admin_file s = Corrupt \<Longrightarrow>
   fst (admin_login e req s) = Inr login_refused
   \<and> active_tokens (snd (admin_login e req s)) = active_tokens s"
  by (auto simp add: admin_login_def load_admin_def login_refused_def add_log_def Let_def)

lemma add_log_tokens: "active_tokens (add_log e m s) = active_tokens s"
  by (simp add: add_log_def Let_def)

text \<open>
  Claim C2. For a body that is a dictionary: when the admin file parses to a non-empty
  dictionary, the handler answers 200 with a fresh token, stored with its expiry, exactly
  when the submitted username and password are equal (Python's \<open>==\<close>) to the stored
  \<open>username\<close> and \<open>password\<close> fields, and answers 401 and issues nothing otherwise.
  When all four values are strings this is string equality: the submitted password is
  compared with the stored field as it is, with no hashing. When the admin file is
  absent or does not parse, the answer is 401. The witness runs the scenario with the
  stored value \<open>secret\<close>.
\<close>

theorem login_iff_credentials_match:
  "json_body req = JObj data \<Longrightarrow>
   (admin_file s = Content (JObj a) \<and> a \<noteq> [] \<longrightarrow>
      (py_eq (py_get data ''username'') (py_get a ''username'')
         \<and> py_eq (py_get data ''password'') (py_get a ''password'')
       \<longrightarrow> fst (admin_login e req s) = Inr (login_ok e)
           \<and> active_tokens (snd (admin_login e req s)) (token_draw e) = Some (now e + 86400000000))
      \<and> (\<not> (py_eq (py_get data ''username'') (py_get a ''username'')
         \<and> py_eq (py_get data ''password'') (py_get a ''password''))
       \<longrightarrow> fst (admin_login e req s) = Inr login_refused
           \<and> active_tokens (snd (admin_login e req s)) = active_tokens s))
   \<and> (admin_file s = Content (JObj a)
        \<and> map_of data ''username'' = Some (JStr u) \<and> map_of data ''password'' = Some (JStr p)
        \<and> map_of a ''username'' = Some (JStr su) \<and> map_of a ''password'' = Some (JStr sp) \<longrightarrow>
      (u = su \<and> p = sp
       \<longrightarrow> fst (admin_login e req s) = Inr (login_ok e)
           \<and> active_tokens (snd (admin_login e req s)) (token_draw e) = Some (now e + 86400000000))
      \<and> (\<not> (u = su \<and> p = sp)
       \<longrightarrow> fst (admin_login e req s) = Inr login_refused
           \<and> active_tokens (snd (admin_login e req s)) = active_tokens s))
   \<and> (admin_file s = Absent \<or> admin_file s = Corrupt \<longrightarrow>
        fst (admin_login e req s) = Inr login_refused
        \<and> active_tokens (snd (admin_login e req s)) = active_tokens s)
   \<and> status_code (login_ok e) = 200 \<and> status_code login_refused = 401"
proof -
  assume b: "json_body req = JObj data"
  have gen: "(if py_eq (py_get data ''username'') (py_get a ''username'')
         \<and> py_eq (py_get data ''password'') (py_get a ''password'')
       then fst (admin_login e req s) = Inr (login_ok e)
           \<and> active_tokens (snd (admin_login e req s)) (token_draw e) = Some (now e + 86400000000)
       else fst (admin_login e req s) = Inr login_refused
           \<and> active_tokens (snd (admin_login e req s)) = active_tokens s)"
    if "admin_file s = Content (JObj a)" "a \<noteq> []"
    using admin_login_dict [OF b that, of e] by (simp add: add_log_tokens)
  have strs: "(if u = su \<and> p = sp
       then fst (admin_login e req s) = Inr (login_ok e)
           \<and> active_tokens (snd (admin_login e req s)) (token_draw e) = Some (now e + 86400000000)
       else fst (admin_login e req s) = Inr login_refused
           \<and> active_tokens (snd (admin_login e req s)) = active_tokens s)"
    if f: "admin_file s = Content (JObj a)"
      and d: "map_of data ''username'' = Some (JStr u)" "map_of data ''password'' = Some (JStr p)"
      and st: "map_of a ''username'' = Some (JStr su)" "map_of a ''password'' = Some (JStr sp)"
  proof -
    have ne: "a \<noteq> []" using st(1) by auto
    show ?thesis using gen [OF f ne] d st by (simp add: py_get_def py_get_default_def)
  qed
  have none: "fst (admin_login e req s) = Inr login_refused
        \<and> active_tokens (snd (admin_login e req s)) = active_tokens s"
    if "admin_file s = Absent \<or> admin_file s = Corrupt"
    using admin_login_no_record [OF b that] .
  have codes: "status_code (login_ok e) = 200 \<and> status_code login_refused = 401"
    by (simp add: login_ok_def login_refused_def jsonify_def)
  show ?thesis
    using gen strs none codes by (simp split: if_splits)
qed

theorem login_iff_credentials_match_witness:
  "json_body (login_request ''admin'' ''secret'') =
      JObj [(''username'', JStr ''admin''), (''password'', JStr ''secret'')]
   \<and> admin_file (s0\<lparr>admin_file := Content admin_secret\<rparr>) = Content admin_secret
   \<and> fst (admin_login e0 (login_request ''admin'' ''secret'') (s0\<lparr>admin_file := Content admin_secret\<rparr>))
       = Inr (jsonify 200 [(''status'', JStr ''success''), (''token'', JStr ''tok'')])
   \<and> active_tokens (snd (admin_login e0 (login_request ''admin'' ''secret'')
         (s0\<lparr>admin_file := Content admin_secret\<rparr>))) ''tok'' = Some 86400000000
   \<and> fst (admin_login e0 (login_request ''admin'' ''Secret'') (s0\<lparr>admin_file := Content admin_secret\<rparr>))
       = Inr login_refused
   \<and> active_tokens (snd (admin_login e0 (login_request ''admin'' ''Secret'')
         (s0\<lparr>admin_file := Content admin_secret\<rparr>))) = Map.empty
   \<and> fst (admin_login e0 (login_request ''admin'' ''secret'') s0) = Inr login_refused
   \<and> fst (admin_login e0 (login_request ''admin'' ''secret'') (s0\<lparr>admin_file := Corrupt\<rparr>))
       = Inr login_refused"
  using login_iff_credentials_match [of "login_request ''admin'' ''secret''"
      "[(''username'', JStr ''admin''), (''password'', JStr ''secret'')]"
      "s0\<lparr>admin_file := Content admin_secret\<rparr>"
      "[(''username'', JStr ''admin''), (''password'', JStr ''secret'')]"
      e0 "''admin''" "''secret''" "''admin''" "''secret''"]
    login_iff_credentials_match [of "login_request ''admin'' ''Secret''"
      "[(''username'', JStr ''admin''), (''password'', JStr ''Secret'')]"
      "s0\<lparr>admin_file := Content admin_secret\<rparr>"
      "[(''username'', JStr ''admin''), (''password'', JStr ''secret'')]"
      e0 "''admin''" "''Secret''" "''admin''" "''secret''"]
    login_iff_credentials_match [of "login_request ''admin'' ''secret''"
      "[(''username'', JStr ''admin''), (''password'', JStr ''secret'')]"
      s0 "[]" e0 "''admin''" "''secret''" "''admin''" "''secret''"]
    login_iff_credentials_match [of "login_request ''admin'' ''secret''"
      "[(''username'', JStr ''admin''), (''password'', JStr ''secret'')]"
      "s0\<lparr>admin_file := Corrupt\<rparr>" "[]" e0 "''admin''" "''secret''" "''admin''" "''secret''"]
  by (simp add: login_request_def admin_secret_def s0_def e0_def login_ok_def)

text \<open>
  Claim C10. When the admin file parses to a non-empty dictionary without the keys
  \<open>username\<close> and \<open>password\<close>, a login whose body has neither key is answered 200
  with a token that is stored and valid: both sides of both comparisons are \<open>None\<close>.
\<close>

theorem login_with_no_credentials_at_all:
  "json_body req = JObj data \<Longrightarrow>
   map_of data ''username'' = None \<Longrightarrow> map_of data ''password'' = None \<Longrightarrow>
   admin_file s = Content (JObj a) \<Longrightarrow> a \<noteq> [] \<Longrightarrow>
   map_of a ''username'' = None \<Longrightarrow> map_of a ''password'' = None \<Longrightarrow>
   fst (admin_login e req s) = Inr (login_ok e)
   \<and> active_tokens (snd (admin_login e req s)) (token_draw e) = Some (now e + 86400000000)
   \<and> fst (is_token_valid (now e) (token_draw e) (active_tokens (snd (admin_login e req s))))"
  using admin_login_dict [of req data s a e]
  by (simp add: py_get_def py_get_default_def add_log_tokens is_token_valid_def)

theorem login_with_no_credentials_at_all_witness:
  "json_body \<lparr>headers = Map.empty, json_body = JObj []\<rparr> = JObj []
   \<and> map_of ([] :: (string \<times> json) list) ''username'' = None
   \<and> map_of ([] :: (string \<times> json) list) ''password'' = None
   \<and> admin_file (s0\<lparr>admin_file := Content (JObj [(''note'', JStr ''to do'')])\<rparr>)
       = Content (JObj [(''note'', JStr ''to do'')])
   \<and> [(''note'', JStr ''to do'')] \<noteq> []
   \<and> map_of [(''note'', JStr ''to do'')] ''username'' = None
   \<and> map_of [(''note'', JStr ''to do'')] ''password'' = None
   \<and> fst (admin_login e0 \<lparr>headers = Map.empty, json_body = JObj []\<rparr>
         (s0\<lparr>admin_file := Content (JObj [(''note'', JStr ''to do'')])\<rparr>))
       = Inr (jsonify 200 [(''status'', JStr ''success''), (''token'', JStr ''tok'')])
   \<and> active_tokens (snd (admin_login e0 \<lparr>headers = Map.empty, json_body = JObj []\<rparr>
         (s0\<lparr>admin_file := Content (JObj [(''note'', JStr ''to do'')])\<rparr>))) ''tok''
       = Some 86400000000"
  using login_with_no_credentials_at_all [of "\<lparr>headers = Map.empty, json_body = JObj []\<rparr>" "[]"
      "s0\<lparr>admin_file := Content (JObj [(''note'', JStr ''to do'')])\<rparr>"
      "[(''note'', JStr ''to do'')]" e0]
  by (simp add: s0_def e0_def login_ok_def)

section \<open>Adding a link\<close>

lemma add_library_link_dict:
  "json_body req = JObj data \<Longrightarrow>
   add_library_link e req s =
     (if py_truthy (py_get data ''name'') \<and> py_truthy (py_get data ''url'') then
        (Inr (jsonify 200 [(''status'', JStr ''success''),
           (''links'', JArr (library_links s @ [link_record (py_get data ''name'') (py_get data ''url'')]))]),
         add_log e (''Added to library: '' @ fmt e (py_get data ''name'') @ '' - ''
             @ fmt e (py_get data ''url''))
           (s\<lparr>library_links := library_links s @ [link_record (py_get data ''name'') (py_get data ''url'')],
              library_file := Content (JArr (library_links s
                 @ [link_record (py_get data ''name'') (py_get data ''url'')]))\<rparr>))
      else (Inr name_url_required, s))"
  by (simp add: add_library_link_def save_library_def link_record_def name_url_required_def Let_def)

lemma add_log_library:
  "library_links (add_log e m s) = library_links s"
  "library_file (add_log e m s) = library_file s"
  by (simp_all add: add_log_def Let_def)



section \<open>The library sequence under delete and pin\<close>

lemma update_missing: "map_of al k = None \<Longrightarrow> AList.update k v al = al @ [(k, v)]"
  by (induction al) (auto split: if_splits)

lemma get_default_update:
  "py_get_default (AList.update k v al) k dflt = v"
  by (simp add: py_get_default_def update_conv')

lemma delete_links:
  "0 \<le> i \<Longrightarrow> i < int (length (library_links s)) \<Longrightarrow>
   library_links (snd (delete_library_link e i req s)) =
     take (nat i) (library_links s) @ drop (Suc (nat i)) (library_links s)"
  by (simp add: delete_library_link_def Let_def save_library_def add_log_library
      split: json.splits sum.splits)

lemma delete_out_of_range:
  "\<not> (0 \<le> i \<and> i < int (length (library_links s))) \<Longrightarrow>
   delete_library_link e i req s = (Inr invalid_index, s)"
  by (simp only: delete_library_link_def invalid_index_def if_not_P if_False)

lemma links_after_log_line:
  "library_links (snd (case x of Inl err \<Rightarrow> (Inl err, s1)
      | Inr name \<Rightarrow> (r name, add_log e (m name) s1))) = library_links s1"
  by (cases x) (simp_all add: add_log_library)

lemma toggle_links:
  "0 \<le> i \<Longrightarrow> i < int (length (library_links s)) \<Longrightarrow> library_links s ! nat i = JObj d \<Longrightarrow>
   library_links (snd (toggle_pin e i req s)) =
     (library_links s)[nat i := JObj (AList.update ''pinned''
        (JBool (\<not> py_truthy (py_get_default d ''pinned'' (JBool False)))) d)]"
  by (cases "map_of d ''pinned''")
    (simp_all add: toggle_pin_def Let_def links_after_log_line save_library_def
      py_get_default_def update_conv')

lemma toggle_non_dict:
  "0 \<le> i \<Longrightarrow> i < int (length (library_links s)) \<Longrightarrow> \<not> is_dict (library_links s ! nat i) \<Longrightarrow>
   toggle_pin e i req s = (Inl TypeError, s)"
  by (cases "library_links s ! nat i") (simp_all add: toggle_pin_def)

lemma pinned_links_eq:
  "pinned_links xs = (if list_all is_dict xs then Inr (filter flag_truthy xs) else Inl AttributeError)"
proof (induction xs)
  case Nil
  then show ?case by simp
next
  case (Cons x xs)
  then show ?case by (cases x) simp_all
qed


lemma toggle_out_of_range:
  "\<not> (0 \<le> i \<and> i < int (length (library_links s))) \<Longrightarrow>
   toggle_pin e i req s = (Inr invalid_index, s)"
  by (simp only: toggle_pin_def invalid_index_def if_not_P if_False)

lemma toggle_keeps_length:
  "length (library_links (snd (toggle_pin e i req s))) = length (library_links s)"
proof (cases "0 \<le> i \<and> i < int (length (library_links s))")
  case True
  show ?thesis
  proof (cases "library_links s ! nat i")
    case (JObj d)
    then show ?thesis using True toggle_links [of i s d e req] by simp
  qed (use True in \<open>simp_all add: toggle_non_dict\<close>)
next
  case False
  show ?thesis by (simp only: toggle_out_of_range [OF False] snd_conv)
qed

text \<open>
  Claim C5. For an index in range whose element is a dictionary, two calls of
  \<open>toggle_pin\<close> leave the sequence as it was except that the flag of that record is
  the boolean of its original truth value. So a boolean flag is flipped by the first
  call and restored by the second, and the sequence is then exactly the original one; a
  missing flag, which reads as false, is present and false afterwards. An element that is
  not a dictionary makes both calls raise and nothing changes. The length and every other
  position are unchanged in all cases.
\<close>

theorem toggle_pin_twice:
  assumes "0 \<le> i" and "i < int (length (library_links s))"
  shows "(library_links s ! nat i = JObj d \<longrightarrow>
       library_links (snd (toggle_pin e2 i req2 (snd (toggle_pin e1 i req1 s)))) =
         (library_links s)[nat i := JObj (AList.update ''pinned''
            (JBool (py_truthy (py_get_default d ''pinned'' (JBool False)))) d)]
       \<and> (map_of d ''pinned'' = Some (JBool b) \<longrightarrow>
            library_links (snd (toggle_pin e1 i req1 s)) =
              (library_links s)[nat i := JObj (AList.update ''pinned'' (JBool (\<not> b)) d)]
            \<and> library_links (snd (toggle_pin e2 i req2 (snd (toggle_pin e1 i req1 s)))) =
              library_links s)
       \<and> (map_of d ''pinned'' = None \<longrightarrow>
            library_links (snd (toggle_pin e2 i req2 (snd (toggle_pin e1 i req1 s)))) =
              (library_links s)[nat i := JObj (d @ [(''pinned'', JBool False)])]))
     \<and> (\<not> is_dict (library_links s ! nat i) \<longrightarrow>
          library_links (snd (toggle_pin e2 i req2 (snd (toggle_pin e1 i req1 s)))) =
            library_links s)
     \<and> length (library_links (snd (toggle_pin e2 i req2 (snd (toggle_pin e1 i req1 s))))) =
          length (library_links s)
     \<and> (j \<noteq> nat i \<longrightarrow>
          library_links (snd (toggle_pin e2 i req2 (snd (toggle_pin e1 i req1 s)))) ! j =
            library_links s ! j)"
proof -
  let ?xs = "library_links s"
  let ?s1 = "snd (toggle_pin e1 i req1 s)"
  let ?s2 = "snd (toggle_pin e2 i req2 ?s1)"
  have n: "nat i < length ?xs" using assms by simp
  have dict: "library_links ?s2 = ?xs[nat i := JObj (AList.update ''pinned''
            (JBool (py_truthy (py_get_default d ''pinned'' (JBool False)))) d)]"
    if d: "?xs ! nat i = JObj d" for d
  proof -
    let ?d1 = "AList.update ''pinned''
        (JBool (\<not> py_truthy (py_get_default d ''pinned'' (JBool False)))) d"
    have one: "library_links ?s1 = ?xs[nat i := JObj ?d1]"
      using assms d by (rule toggle_links)
    have r1: "i < int (length (library_links ?s1))" using assms(2) one by simp
    have at: "library_links ?s1 ! nat i = JObj ?d1" using one n by simp
    have "library_links ?s2 = (library_links ?s1)[nat i := JObj (AList.update ''pinned''
        (JBool (\<not> py_truthy (py_get_default ?d1 ''pinned'' (JBool False)))) ?d1)]"
      using assms(1) r1 at by (rule toggle_links)
    then show ?thesis by (simp add: one get_default_update)
  qed
  have bool: "library_links ?s1 = ?xs[nat i := JObj (AList.update ''pinned'' (JBool (\<not> b)) d)]
      \<and> library_links ?s2 = ?xs"
    if d: "?xs ! nat i = JObj d" and f: "map_of d ''pinned'' = Some (JBool b)" for d b
  proof -
    have g: "py_get_default d ''pinned'' (JBool False) = JBool b"
      using f by (simp add: py_get_default_def)
    have "AList.update ''pinned'' (JBool b) d = d" using f by (rule update_triv)
    then have "library_links ?s2 = ?xs[nat i := ?xs ! nat i]"
      using dict [OF d] d g by simp
    moreover have "library_links ?s1 = ?xs[nat i := JObj (AList.update ''pinned'' (JBool (\<not> b)) d)]"
      using toggle_links [OF assms d, of e1 req1] g by simp
    ultimately show ?thesis by simp
  qed
  have missing: "library_links ?s2 = ?xs[nat i := JObj (d @ [(''pinned'', JBool False)])]"
    if d: "?xs ! nat i = JObj d" and f: "map_of d ''pinned'' = None" for d
    using dict [OF d] f by (simp add: py_get_default_def update_missing)
  have other: "library_links ?s2 = ?xs" if "\<not> is_dict (?xs ! nat i)"
    using assms that by (simp add: toggle_non_dict)
  have len: "length (library_links ?s2) = length ?xs"
    by (simp add: toggle_keeps_length)
  have rest: "library_links ?s2 ! j = ?xs ! j" if "j \<noteq> nat i"
  proof (cases "?xs ! nat i")
    case (JObj d)
    then show ?thesis using dict [of d] that by simp
  qed (use other in simp_all)
  show ?thesis using dict bool missing other len rest by blast
qed


theorem toggle_pin_twice_witness:
  "(0::int) \<le> 0 \<and> (0::int) < int (length (library_links two_links))
   \<and> library_links two_links ! nat 0 = wiki_pinned
   \<and> library_links (snd (toggle_pin e0 0 no_request two_links)) =
       [JObj [(''name'', JStr ''Wiki''), (''url'', JStr ''http://wiki''), (''pinned'', JBool False)],
        JObj [(''name'', JStr ''Docs''), (''url'', JStr ''http://docs'')]]
   \<and> library_links (snd (toggle_pin e0 0 no_request (snd (toggle_pin e0 0 no_request two_links))))
       = library_links two_links
   \<and> (1::int) < int (length (library_links two_links))
   \<and> library_links (snd (toggle_pin e0 1 no_request (snd (toggle_pin e0 1 no_request two_links))))
       = [wiki_pinned,
          JObj [(''name'', JStr ''Docs''), (''url'', JStr ''http://docs''), (''pinned'', JBool False)]]
   \<and> (0::int) < int (length (library_links (s0\<lparr>library_links := [JInt 3]\<rparr>)))
   \<and> \<not> is_dict (library_links (s0\<lparr>library_links := [JInt 3]\<rparr>) ! nat 0)
   \<and> library_links (snd (toggle_pin e0 0 no_request
         (snd (toggle_pin e0 0 no_request (s0\<lparr>library_links := [JInt 3]\<rparr>))))) = [JInt 3]"
  using toggle_pin_twice [of 0 two_links
      "[(''name'', JStr ''Wiki''), (''url'', JStr ''http://wiki''), (''pinned'', JBool True)]"
      e0 no_request e0 no_request True 1]
    toggle_pin_twice [of 1 two_links
      "[(''name'', JStr ''Docs''), (''url'', JStr ''http://docs'')]"
      e0 no_request e0 no_request True 0]
    toggle_pin_twice [of 0 "s0\<lparr>library_links := [JInt 3]\<rparr>" "[]"
      e0 no_request e0 no_request True 0]
  by (simp add: two_links_def wiki_pinned_def s0_def py_get_default_def)

section \<open>The pinned list\<close>

lemma boolean_flag_reading:
  "flag_boolean_or_missing x \<Longrightarrow> is_dict x \<and> flag_truthy x = pinned_is_true x"
  by (cases x) (auto simp: py_get_default_def split: option.splits json.splits)

lemma boolean_flags_filter:
  "list_all flag_boolean_or_missing xs \<Longrightarrow>
   list_all is_dict xs \<and> filter flag_truthy xs = filter pinned_is_true xs"
  by (induction xs) (auto simp: boolean_flag_reading)

text \<open>
  Claim C9. When the record at an index in range lacks the flag, \<open>toggle_pin\<close> leaves
  that record with \<open>pinned\<close> true. On a sequence of records whose flag is boolean or
  missing, \<open>get_pinned\<close> answers exactly the specification's list: the records whose
  flag is true, in their original order, and no record that lacks the flag. On any
  sequence of dictionaries the list is the records whose flag has a true truth value.
\<close>

theorem missing_flag_counts_as_unpinned:
  "(0 \<le> i \<and> i < int (length (library_links s)) \<and> library_links s ! nat i = JObj d
      \<and> map_of d ''pinned'' = None \<longrightarrow>
      library_links (snd (toggle_pin e i req s)) =
        (library_links s)[nat i := JObj (d @ [(''pinned'', JBool True)])]
      \<and> map_of (d @ [(''pinned'', JBool True)]) ''pinned'' = Some (JBool True))
   \<and> (list_all flag_boolean_or_missing xs \<longrightarrow> pinned_links xs = Inr (spec_listPinned xs))
   \<and> (list_all flag_boolean_or_missing (library_links s) \<longrightarrow>
        get_pinned req s =
          (Inr (jsonify 200 [(''links'', JArr (spec_listPinned (library_links s)))]), s))
   \<and> (map_of d ''pinned'' = None \<longrightarrow> JObj d \<notin> set (spec_listPinned xs))
   \<and> (list_all is_dict xs \<longrightarrow> pinned_links xs = Inr (filter flag_truthy xs))"
proof -
  have t: "library_links (snd (toggle_pin e i req s)) =
        (library_links s)[nat i := JObj (d @ [(''pinned'', JBool True)])]
      \<and> map_of (d @ [(''pinned'', JBool True)]) ''pinned'' = Some (JBool True)"
    if "0 \<le> i" "i < int (length (library_links s))" "library_links s ! nat i = JObj d"
      and f: "map_of d ''pinned'' = None"
    using toggle_links [OF that(1-3), of e req] f
    by (simp add: py_get_default_def update_missing map_add_def)
  have p: "pinned_links xs = Inr (spec_listPinned xs)" if "list_all flag_boolean_or_missing xs" for xs
    using boolean_flags_filter [OF that] by (simp add: pinned_links_eq spec_listPinned_def)
  have g: "get_pinned req s =
          (Inr (jsonify 200 [(''links'', JArr (spec_listPinned (library_links s)))]), s)"
    if "list_all flag_boolean_or_missing (library_links s)"
    using p [OF that] by (simp add: get_pinned_def)
  have m: "JObj d \<notin> set (spec_listPinned xs)" if "map_of d ''pinned'' = None"
    using that by (simp add: spec_listPinned_def)
  have a: "pinned_links xs = Inr (filter flag_truthy xs)" if "list_all is_dict xs"
    using that by (simp add: pinned_links_eq)
  show ?thesis using t p g m a by blast
qed

theorem missing_flag_counts_as_unpinned_witness:
  "(0::int) \<le> 1 \<and> (1::int) < int (length (library_links two_links))
   \<and> library_links two_links ! nat 1 = JObj [(''name'', JStr ''Docs''), (''url'', JStr ''http://docs'')]
   \<and> map_of [(''name'', JStr ''Docs''), (''url'', JStr ''http://docs'')] ''pinned'' = None
   \<and> library_links (snd (toggle_pin e0 1 no_request two_links)) =
       [wiki_pinned,
        JObj [(''name'', JStr ''Docs''), (''url'', JStr ''http://docs''), (''pinned'', JBool True)]]
   \<and> list_all flag_boolean_or_missing (library_links two_links)
   \<and> list_all is_dict (library_links two_links)
   \<and> pinned_links (library_links two_links) = Inr [wiki_pinned]
   \<and> get_pinned no_request two_links = (Inr (jsonify 200 [(''links'', JArr [wiki_pinned])]), two_links)
   \<and> JObj [(''name'', JStr ''Docs''), (''url'', JStr ''http://docs'')]
       \<notin> set (spec_listPinned (library_links two_links))"
  using missing_flag_counts_as_unpinned [of 1 two_links
      "[(''name'', JStr ''Docs''), (''url'', JStr ''http://docs'')]" e0 no_request
      "library_links two_links"]
  by (simp add: two_links_def wiki_pinned_def s0_def spec_listPinned_def)

section \<open>The pinned list after a delete\<close>


lemma add_links:
  "json_body req = JObj data \<Longrightarrow> py_truthy (py_get data ''name'') \<Longrightarrow>
   py_truthy (py_get data ''url'') \<Longrightarrow>
   library_links (snd (add_library_link e req s)) =
     library_links s @ [link_record (py_get data ''name'') (py_get data ''url'')]"
  by (simp add: add_library_link_dict add_log_library)






section \<open>Library mutation and the Authorization header\<close>

lemma add_ignores:
  "add_library_link e (req\<lparr>headers := h\<rparr>) (s\<lparr>active_tokens := toks\<rparr>) =
     (fst (add_library_link e req s), (snd (add_library_link e req s))\<lparr>active_tokens := toks\<rparr>)"
  by (simp add: add_library_link_def Let_def add_log_def save_library_def
      split: json.splits)

lemma delete_ignores:
  "delete_library_link e i (req\<lparr>headers := h\<rparr>) (s\<lparr>active_tokens := toks\<rparr>) =
     (fst (delete_library_link e i req s),
      (snd (delete_library_link e i req s))\<lparr>active_tokens := toks\<rparr>)"
  by (simp add: delete_library_link_def Let_def add_log_def save_library_def
      split: json.splits sum.splits)

lemma toggle_ignores:
  "toggle_pin e i (req\<lparr>headers := h\<rparr>) (s\<lparr>active_tokens := toks\<rparr>) =
     (fst (toggle_pin e i req s), (snd (toggle_pin e i req s))\<lparr>active_tokens := toks\<rparr>)"
  by (simp add: toggle_pin_def Let_def add_log_def save_library_def
      split: json.splits sum.splits)

text \<open>
  Claim C1. The add, delete and pin handlers give the same response and the same state
  whatever the request headers are and whatever the token map holds: replacing both
  changes nothing but the token map handed through. With no header at all and an empty
  token map, a valid add appends its record, a delete in range removes the element and a
  pin in range flips the flag.
\<close>

theorem library_mutation_ignores_authorization:
  "add_library_link e (req\<lparr>headers := h\<rparr>) (s\<lparr>active_tokens := toks\<rparr>) =
     (fst (add_library_link e req s), (snd (add_library_link e req s))\<lparr>active_tokens := toks\<rparr>)
   \<and> delete_library_link e i (req\<lparr>headers := h\<rparr>) (s\<lparr>active_tokens := toks\<rparr>) =
     (fst (delete_library_link e i req s),
      (snd (delete_library_link e i req s))\<lparr>active_tokens := toks\<rparr>)
   \<and> toggle_pin e i (req\<lparr>headers := h\<rparr>) (s\<lparr>active_tokens := toks\<rparr>) =
     (fst (toggle_pin e i req s), (snd (toggle_pin e i req s))\<lparr>active_tokens := toks\<rparr>)
   \<and> (json_body req = JObj data \<and> py_truthy (py_get data ''name'')
        \<and> py_truthy (py_get data ''url'') \<longrightarrow>
        library_links (snd (add_library_link e (req\<lparr>headers := Map.empty\<rparr>)
            (s\<lparr>active_tokens := Map.empty\<rparr>))) =
          library_links s @ [link_record (py_get data ''name'') (py_get data ''url'')])
   \<and> (0 \<le> i \<and> i < int (length (library_links s)) \<longrightarrow>
        library_links (snd (delete_library_link e i (req\<lparr>headers := Map.empty\<rparr>)
            (s\<lparr>active_tokens := Map.empty\<rparr>))) =
          take (nat i) (library_links s) @ drop (Suc (nat i)) (library_links s))
   \<and> (0 \<le> i \<and> i < int (length (library_links s)) \<and> library_links s ! nat i = JObj d \<longrightarrow>
        library_links (snd (toggle_pin e i (req\<lparr>headers := Map.empty\<rparr>)
            (s\<lparr>active_tokens := Map.empty\<rparr>))) =
          (library_links s)[nat i := JObj (AList.update ''pinned''
             (JBool (\<not> py_truthy (py_get_default d ''pinned'' (JBool False)))) d)])"
proof -
  have a: "library_links (snd (add_library_link e (req\<lparr>headers := Map.empty\<rparr>)
            (s\<lparr>active_tokens := Map.empty\<rparr>))) =
          library_links s @ [link_record (py_get data ''name'') (py_get data ''url'')]"
    if "json_body req = JObj data" "py_truthy (py_get data ''name'')" "py_truthy (py_get data ''url'')"
    using that by (simp add: add_ignores add_links)
  have d: "library_links (snd (delete_library_link e i (req\<lparr>headers := Map.empty\<rparr>)
            (s\<lparr>active_tokens := Map.empty\<rparr>))) =
          take (nat i) (library_links s) @ drop (Suc (nat i)) (library_links s)"
    if "0 \<le> i" "i < int (length (library_links s))"
    using that by (simp add: delete_ignores delete_links)
  have t: "library_links (snd (toggle_pin e i (req\<lparr>headers := Map.empty\<rparr>)
            (s\<lparr>active_tokens := Map.empty\<rparr>))) =
          (library_links s)[nat i := JObj (AList.update ''pinned''
             (JBool (\<not> py_truthy (py_get_default d ''pinned'' (JBool False)))) d)]"
    if "0 \<le> i" "i < int (length (library_links s))" "library_links s ! nat i = JObj d"
    using that by (simp add: toggle_ignores toggle_links)
  show ?thesis
    using a d t by (simp only: add_ignores delete_ignores toggle_ignores) blast
qed

theorem library_mutation_ignores_authorization_witness:
  "add_library_link e0 (wiki_request\<lparr>headers := [''Authorization'' \<mapsto> ''Bearer bogus'']\<rparr>)
       (s0\<lparr>active_tokens := [''tok'' \<mapsto> 5]\<rparr>) =
     (fst (add_library_link e0 wiki_request s0),
      (snd (add_library_link e0 wiki_request s0))\<lparr>active_tokens := [''tok'' \<mapsto> 5]\<rparr>)
   \<and> json_body wiki_request = JObj [(''name'', JStr ''Wiki''), (''url'', JStr ''http://wiki'')]
   \<and> py_truthy (py_get [(''name'', JStr ''Wiki''), (''url'', JStr ''http://wiki'')] ''name'')
   \<and> py_truthy (py_get [(''name'', JStr ''Wiki''), (''url'', JStr ''http://wiki'')] ''url'')
   \<and> library_links (snd (add_library_link e0 (wiki_request\<lparr>headers := Map.empty\<rparr>)
         (s0\<lparr>active_tokens := Map.empty\<rparr>))) =
       [JObj [(''name'', JStr ''Wiki''), (''url'', JStr ''http://wiki''), (''pinned'', JBool False)]]
   \<and> (0::int) \<le> 1 \<and> (1::int) < int (length (library_links two_links))
   \<and> library_links (snd (delete_library_link e0 1 (no_request\<lparr>headers := Map.empty\<rparr>)
         (two_links\<lparr>active_tokens := Map.empty\<rparr>))) = [wiki_pinned]
   \<and> library_links two_links ! nat 1 = JObj [(''name'', JStr ''Docs''), (''url'', JStr ''http://docs'')]
   \<and> library_links (snd (toggle_pin e0 1 (no_request\<lparr>headers := Map.empty\<rparr>)
         (two_links\<lparr>active_tokens := Map.empty\<rparr>))) =
       [wiki_pinned,
        JObj [(''name'', JStr ''Docs''), (''url'', JStr ''http://docs''), (''pinned'', JBool True)]]"
  using library_mutation_ignores_authorization [where e = e0 and req = wiki_request
      and h = "[''Authorization'' \<mapsto> ''Bearer bogus'']" and s = s0
      and toks = "[''tok'' \<mapsto> 5]" and i = 1
      and data = "[(''name'', JStr ''Wiki''), (''url'', JStr ''http://wiki'')]"
      and d = "[(''name'', JStr ''Docs''), (''url'', JStr ''http://docs'')]"]
    library_mutation_ignores_authorization [where e = e0 and req = no_request
      and h = "[''Authorization'' \<mapsto> ''Bearer bogus'']" and s = two_links
      and toks = "[''tok'' \<mapsto> 5]" and i = 1
      and data = "[(''name'', JStr ''Wiki''), (''url'', JStr ''http://wiki'')]"
      and d = "[(''name'', JStr ''Docs''), (''url'', JStr ''http://docs'')]"]
  by (simp add: wiki_request_def two_links_def wiki_pinned_def s0_def link_record_def
      py_get_def py_get_default_def)

text \<open>The verification handler, by contrast, answers by the header and the token map.\<close>

lemma verify_token_reads_the_header:
  "fst (verify_token e0 no_request (s0\<lparr>active_tokens := [''abc'' \<mapsto> 5]\<rparr>)) =
     Inr (jsonify 401 [(''status'', JStr ''error''), (''message'', JStr ''No token provided'')])"
  "fst (verify_token e0 (no_request\<lparr>headers := [''Authorization'' \<mapsto> ''Bearer abc'']\<rparr>)
     (s0\<lparr>active_tokens := [''abc'' \<mapsto> 5]\<rparr>)) = Inr (jsonify 200 [(''status'', JStr ''success'')])"
  "fst (verify_token e0 (no_request\<lparr>headers := [''Authorization'' \<mapsto> ''Bearer abd'']\<rparr>)
     (s0\<lparr>active_tokens := [''abc'' \<mapsto> 5]\<rparr>)) =
     Inr (jsonify 401 [(''status'', JStr ''error''), (''message'', JStr ''Invalid or expired token'')])"
  by (simp_all add: verify_token_def no_request_def is_token_valid_def e0_def s0_def Let_def)

end
